theory Spec2Isabelle
  imports Complex_Main "HOL-Library.Word"
begin

section \<open>The Speech Service client (services/geminiService.ts)\<close>

subsection \<open>Promises, timeouts and retries\<close>

text \<open>
  A thrown or rejected JavaScript \<^verbatim>\<open>Error\<close> is a value; every fallible operation returns
  \<open>error + 'a\<close> with \<open>Inl\<close> the rejection.

  A promise handed to \<^verbatim>\<open>withTimeout\<close> is described by how it settles: fulfilled or
  rejected after so many milliseconds, or never. \<^verbatim>\<open>Promise.race\<close> takes whichever of the
  promise and the timer settles first; a promise that needs the full \<open>ms\<close> or more loses
  to the timer.
\<close>

datatype error = Error string

datatype 'a promise = Fulfills nat 'a | Rejects nat error | Never

definition withTimeout :: "'a promise \<Rightarrow> nat \<Rightarrow> string \<Rightarrow> error + 'a" where
  "withTimeout promise ms errorMessage =
     (case promise of
        Fulfills t v \<Rightarrow> if t < ms then Inr v else Inl (Error errorMessage)
      | Rejects t e \<Rightarrow> if t < ms then Inl e else Inl (Error errorMessage)
      | Never \<Rightarrow> Inl (Error errorMessage))"

text \<open>
  \<^verbatim>\<open>retry(fn, retries, delay)\<close>. The thunk \<^verbatim>\<open>fn\<close> is called several times and may settle
  differently each time, so it is a function of the number \<open>k\<close> of earlier calls. The
  result is what the returned promise settles to, together with the delays slept between
  attempts, in order.
\<close>

function retry :: "(nat \<Rightarrow> error + 'a) \<Rightarrow> nat \<Rightarrow> int \<Rightarrow> int \<Rightarrow> (error + 'a) \<times> int list" where
  "retry fn k retries delay =
     (case fn k of
        Inr v \<Rightarrow> (Inr v, [])
      | Inl e \<Rightarrow>
          if retries \<le> 0 then (Inl e, [])
          else (let (r, slept) = retry fn (Suc k) (retries - 1) (delay * 2)
                in (r, delay # slept)))"
  by pat_completeness auto
termination
  by (relation "measure (\<lambda>(fn, k, retries, delay). nat retries)") auto

declare retry.simps [simp del]

subsection \<open>Requests and responses of the model API\<close>

text \<open>
  \<open>audioData\<close> is the optional chain
  \<^verbatim>\<open>response.candidates?.[0]?.content?.parts?.[0]?.inlineData?.data\<close>, \<open>responseText\<close> is
  \<^verbatim>\<open>response.text\<close>; both may be undefined. The transcript is a list of UTF-16 code
  units, so that \<^verbatim>\<open>trim\<close> can be modelled on the white space ECMAScript defines. The
  external service \<^verbatim>\<open>ai.models.generateContent\<close> maps a request and the number of earlier
  calls to the way its promise settles.
\<close>

record GenerateContentRequest =
  model :: string
  promptText :: string
  inlineAudio :: "(string \<times> string) option"
  voiceName :: "string option"

record GenerateContentResponse =
  audioData :: "string option"
  responseText :: "nat list option"

type_synonym genai = "GenerateContentRequest \<Rightarrow> nat \<Rightarrow> GenerateContentResponse promise"

definition TIMEOUT_MS :: nat where
  "TIMEOUT_MS = 60000"

definition ttsRequest :: "string \<Rightarrow> GenerateContentRequest" where
  "ttsRequest prompt =
     \<lparr>model = ''gemini-2.5-flash-preview-tts'', promptText = prompt,
      inlineAudio = None, voiceName = Some ''Kore''\<rparr>"

subsection \<open>generateTimerAnnouncement\<close>

text \<open>
  Template literals print a whole number in decimal. \<^verbatim>\<open>Math.floor(d / 60)\<close> is \<open>div\<close> on
  \<open>int\<close>; the remainder operator \<^verbatim>\<open>%\<close> takes the sign of the dividend.
\<close>

fun decimal :: "nat \<Rightarrow> string" where
  "decimal n =
     (if n < 10 then [''0123456789'' ! n]
      else decimal (n div 10) @ [''0123456789'' ! (n mod 10)])"

definition toString :: "int \<Rightarrow> string" where
  "toString i = (if i < 0 then CHR ''-'' # decimal (nat (- i)) else decimal (nat i))"

definition js_rem :: "int \<Rightarrow> int \<Rightarrow> int" where
  "js_rem a b = sgn a * (\<bar>a\<bar> mod \<bar>b\<bar>)"

definition timeString :: "int \<Rightarrow> string" where
  "timeString durationSeconds =
     (let minutes = durationSeconds div 60;
          seconds = js_rem durationSeconds 60;
          t0 = [];
          t1 = (if minutes > 0
                then t0 @ toString minutes @ '' minute'' @ (if minutes \<noteq> 1 then ''s'' else [])
                else t0);
          t2 = (if minutes > 0 \<and> seconds > 0 then t1 @ '' and '' else t1);
          t3 = (if seconds > 0
                then t2 @ toString seconds @ '' second'' @ (if seconds \<noteq> 1 then ''s'' else [])
                else t2)
      in if t3 = [] then ''0 seconds'' else t3)"

definition announcementPrompt :: "string \<Rightarrow> int \<Rightarrow> string" where
  "announcementPrompt taskName durationSeconds =
     ''Say enthusiastically and clearly: '' @ [CHR 0x22] @ ''Begin '' @ taskName @ '' for ''
       @ timeString durationSeconds @ ''.'' @ [CHR 0x22]"

definition timerApiCall :: "genai \<Rightarrow> string \<Rightarrow> nat \<Rightarrow> error + string" where
  "timerApiCall ai prompt k =
     (case withTimeout (ai (ttsRequest prompt) k) TIMEOUT_MS ''Audio generation timed out'' of
        Inl e \<Rightarrow> Inl e
      | Inr response \<Rightarrow>
          (case audioData response of
             None \<Rightarrow> Inl (Error ''No audio data received from Gemini'')
           | Some base64Audio \<Rightarrow>
               if base64Audio = [] then Inl (Error ''No audio data received from Gemini'')
               else Inr base64Audio))"

definition generateTimerAnnouncement_run ::
    "genai \<Rightarrow> string \<Rightarrow> int \<Rightarrow> (error + string) \<times> int list" where
  "generateTimerAnnouncement_run ai taskName durationSeconds =
     retry (timerApiCall ai (announcementPrompt taskName durationSeconds)) 0 3 1000"

definition generateTimerAnnouncement :: "genai \<Rightarrow> string \<Rightarrow> int \<Rightarrow> error + string" where
  "generateTimerAnnouncement ai taskName durationSeconds =
     fst (generateTimerAnnouncement_run ai taskName durationSeconds)"

subsection \<open>generateCompletionAnnouncement\<close>

definition completionPrompt :: string where
  "completionPrompt =
     ''Say cheerfully and encouragingly: '' @ [CHR 0x22]
       @ ''All done! You have completed your sequence.'' @ [CHR 0x22]"

definition completionApiCall :: "genai \<Rightarrow> nat \<Rightarrow> error + string" where
  "completionApiCall ai k =
     (case withTimeout (ai (ttsRequest completionPrompt) k) TIMEOUT_MS ''Completion audio timed out'' of
        Inl e \<Rightarrow> Inl e
      | Inr response \<Rightarrow>
          (case audioData response of
             None \<Rightarrow> Inl (Error ''No audio data'')
           | Some base64Audio \<Rightarrow>
               if base64Audio = [] then Inl (Error ''No audio data'') else Inr base64Audio))"

definition generateCompletionAnnouncement :: "genai \<Rightarrow> error + string" where
  "generateCompletionAnnouncement ai = fst (retry (completionApiCall ai) 0 3 1000)"

subsection \<open>transcribeAudio\<close>

text \<open>
  \<^verbatim>\<open>String.prototype.trim\<close> removes the code units of ECMAScript's WhiteSpace and
  LineTerminator productions from both ends.
\<close>

definition isWhiteSpace :: "nat \<Rightarrow> bool" where
  "isWhiteSpace c \<longleftrightarrow>
     c \<in> {9, 10, 11, 12, 13, 32, 160, 5760, 8232, 8233, 8239, 8287, 12288, 65279}
     \<or> (8192 \<le> c \<and> c \<le> 8202)"

definition trim :: "nat list \<Rightarrow> nat list" where
  "trim s = rev (dropWhile isWhiteSpace (rev (dropWhile isWhiteSpace s)))"

definition transcribePrompt :: string where
  "transcribePrompt = ''Transcribe the following audio into a short, concise task name. Return ONLY the text of the task name, no punctuation.''"

definition transcribeRequest :: "string \<Rightarrow> string \<Rightarrow> GenerateContentRequest" where
  "transcribeRequest base64Audio mimeType =
     \<lparr>model = ''gemini-2.5-flash'', promptText = transcribePrompt,
      inlineAudio = Some (mimeType, base64Audio), voiceName = None\<rparr>"

definition transcribeApiCall :: "genai \<Rightarrow> string \<Rightarrow> string \<Rightarrow> nat \<Rightarrow> error + nat list" where
  "transcribeApiCall ai base64Audio mimeType k =
     (case withTimeout (ai (transcribeRequest base64Audio mimeType) k) 15000 ''Transcription timed out'' of
        Inl e \<Rightarrow> Inl e
      | Inr response \<Rightarrow>
          Inr (case responseText response of
                 None \<Rightarrow> []
               | Some t \<Rightarrow> if trim t = [] then [] else trim t))"

definition transcribeAudio :: "genai \<Rightarrow> string \<Rightarrow> string \<Rightarrow> error + nat list" where
  "transcribeAudio ai base64Audio mimeType =
     fst (retry (transcribeApiCall ai base64Audio mimeType) 0 2 500)"

subsection \<open>The duration phrase as the specification words it\<close>

text \<open>
  A count and its unit, the unit in the plural unless the count is one; minutes and
  seconds joined by ``and'', a part left out when it is zero, and ``0 seconds'' for a
  zero duration.
\<close>

definition counted :: "nat \<Rightarrow> string \<Rightarrow> string" where
  "counted n unit = decimal n @ '' '' @ unit @ (if n = 1 then [] else ''s'')"

definition spec_duration_phrase :: "nat \<Rightarrow> string" where
  "spec_duration_phrase d =
     (if d div 60 = 0 then counted (d mod 60) ''second''
      else if d mod 60 = 0 then counted (d div 60) ''minute''
      else counted (d div 60) ''minute'' @ '' and '' @ counted (d mod 60) ''second'')"

section \<open>Audio decoding (services/audioUtils.ts)\<close>

text \<open>
  An \<^verbatim>\<open>AudioBuffer\<close> with its single channel. A \<^verbatim>\<open>Uint8Array\<close> is a list of 8-bit
  words; storing a number into it keeps the number modulo 256. \<^verbatim>\<open>new
  Int16Array(bytes.buffer)\<close> views the same memory as 16-bit words, low byte first (every
  platform that runs a browser is little-endian), and raises a \<^verbatim>\<open>RangeError\<close> when the
  byte length is odd. Every quotient \<open>v / 32768\<close> of a 16-bit \<open>v\<close> is exact in the 32-bit
  floats of the channel data, so samples are \<open>real\<close>.
\<close>

record AudioBuffer =
  numberOfChannels :: nat
  sampleRate :: nat
  channelData :: "real list"

fun int16Pairs :: "8 word list \<Rightarrow> 16 word list" where
  "int16Pairs (lo # hi # rest) = word_cat hi lo # int16Pairs rest"
| "int16Pairs rest = []"

definition Int16Array :: "8 word list \<Rightarrow> error + 16 word list" where
  "Int16Array bytes =
     (if length bytes mod 2 \<noteq> 0 then Inl (Error ''RangeError'') else Inr (int16Pairs bytes))"

text \<open>
  The body of \<^verbatim>\<open>decodeGeminiAudio\<close> after \<^verbatim>\<open>atob\<close>: the binary string is a list of
  code units, and both \<^verbatim>\<open>for\<close> loops store one element per index.
  \<^verbatim>\<open>ctx.createBuffer\<close> belongs to the browser and is a parameter: it takes the number of
  channels, the frame count and the sample rate, and returns a buffer or raises.
\<close>

definition decodeBinaryString ::
    "(nat \<Rightarrow> nat \<Rightarrow> nat \<Rightarrow> error + AudioBuffer) \<Rightarrow> nat list \<Rightarrow> error + AudioBuffer" where
  "decodeBinaryString createBuffer binaryString =
     (let len = length binaryString;
          safeLen = (if len mod 2 = 0 then len else len - 1);
          bytes = fold (\<lambda>i b. b[i := of_nat (binaryString ! i)]) [0..<safeLen]
                    (replicate safeLen (0 :: 8 word))
      in case Int16Array bytes of
           Inl e \<Rightarrow> Inl e
         | Inr dataInt16 \<Rightarrow>
             (let frameCount = length dataInt16
              in case createBuffer 1 frameCount 24000 of
                   Inl e \<Rightarrow> Inl e
                 | Inr buffer \<Rightarrow>
                     Inr (buffer\<lparr>channelData :=
                            fold (\<lambda>i c. c[i := real_of_int (sint (dataInt16 ! i)) / 32768.0])
                              [0..<frameCount] (channelData buffer)\<rparr>)))"


subsection \<open>Little-endian signed 16-bit PCM as the specification words it\<close>



section \<open>Shared types (types.ts)\<close>

text \<open>
  \<^verbatim>\<open>TimerStep\<close>, \<^verbatim>\<open>ChainSettings\<close>, \<^verbatim>\<open>AppStatus\<close> and \<^verbatim>\<open>TimerPhase\<close> as the
  source declares them. JavaScript numbers that hold whole seconds are \<open>int\<close>, list
  positions are \<open>nat\<close>. The field \<^verbatim>\<open>id\<close> is called \<open>stepId\<close> (\<open>id\<close> is the identity
  function of HOL). \<^verbatim>\<open>alarmVolume\<close> is optional because the source reads it as
  \<^verbatim>\<open>settings.alarmVolume ?? 0.8\<close>.
\<close>

record TimerStep =
  stepId :: string
  name :: string
  durationSeconds :: int

datatype AlarmType = bell | digital | chime | gong

record ChainSettings =
  alarmSound :: AlarmType
  alarmVolume :: "real option"
  bufferSeconds :: int

datatype AppStatus = SETUP | RUNNING | FINISHED

datatype TimerPhase =
  PREPARING_AUDIO | ANNOUNCING | COUNTDOWN | BUFFER | COMPLETION_ANNOUNCEMENT | COMPLETED

section \<open>The application shell (App.tsx)\<close>

text \<open>
  \<^verbatim>\<open>App\<close> keeps the step list, the settings and the status, and hands the first two
  to \<^verbatim>\<open>RunMode\<close> as its props; the application state is the props extended by the
  status.
\<close>

record RunModeProps =
  timers :: "TimerStep list"
  settings :: ChainSettings

record AppState = RunModeProps +
  status :: AppStatus

definition handleStart :: "AppState \<Rightarrow> AppState" where
  "handleStart a = (if length (timers a) > 0 then a\<lparr>status := RUNNING\<rparr> else a)"

definition handleExit :: "AppState \<Rightarrow> AppState" where
  "handleExit a = a\<lparr>status := SETUP\<rparr>"

section \<open>The sequence controller (components/RunMode.tsx)\<close>

subsection \<open>State\<close>

text \<open>
  The component's React state and refs are the first nine fields of \<open>RunState\<close>. State
  setters take effect at once: every handler of the source reads the values of the latest
  render. The remaining fields are the part of the browser the component acts on:
  \<^item> \<open>playing\<close>: the buffer sources started by \<^verbatim>\<open>playAudioBuffer\<close> and neither ended nor
    stopped, by handle; \<open>audioStopRef\<close> holds the handle whose \<^verbatim>\<open>stop\<close> closure it stores;
  \<^item> \<open>intervals\<close>: the live \<^verbatim>\<open>setInterval\<close> registrations by id, each with the
    \<^verbatim>\<open>myOpId\<close> and the \<^verbatim>\<open>onComplete\<close> closure that \<^verbatim>\<open>startTimer\<close> captured; browser ids
    are positive, so the truthiness test on \<open>intervalRef\<close> is a test for \<^verbatim>\<open>null\<close>;
  \<^item> \<open>pending\<close>: the suspended continuations of the \<^verbatim>\<open>async\<close> functions, one \<open>task\<close> per
    \<^verbatim>\<open>await\<close>, with the variables the continuation has captured;
  \<^item> \<open>calls\<close>: the calls made to the Speech Service, the decoder and the audio output,
    oldest first.
  Console output is not modelled.
\<close>

datatype on_complete =
    StepComplete nat nat
  | BufferElapsed nat nat
  | ResumeCallback TimerPhase nat

record interval =
  tickOpId :: nat
  callback :: on_complete

datatype task =
    StepSynth nat nat
  | StepDecode nat nat
  | StepDone nat nat nat
  | FinalSynth nat
  | FinalDecode nat
  | FinalDone nat nat
  | PreloadSynth nat
  | PreloadDecode nat
  | AlarmWait nat nat

datatype call =
    SynthStep string int
  | SynthCompletion
  | Decode string
  | PlayBuffer AudioBuffer real
  | PlayAlarm AlarmType real

record RunState =
  currentIndex :: nat
  phase :: TimerPhase
  remainingSeconds :: int
  isPaused :: bool
  errorMessage :: "string option"
  opIdRef :: nat
  audioStopRef :: "nat option"
  intervalRef :: "nat option"
  audioCache :: "nat \<rightharpoonup> AudioBuffer"
  playing :: "nat \<rightharpoonup> AudioBuffer \<times> real"
  intervals :: "nat \<rightharpoonup> interval"
  nextHandle :: nat
  pending :: "task list"
  calls :: "call list"

definition initialState :: RunState where
  "initialState =
     \<lparr>currentIndex = 0, phase = PREPARING_AUDIO, remainingSeconds = 0, isPaused = False,
      errorMessage = None, opIdRef = 0, audioStopRef = None, intervalRef = None,
      audioCache = Map.empty, playing = Map.empty, intervals = Map.empty, nextHandle = 1,
      pending = [], calls = []\<rparr>"

subsection \<open>Helpers\<close>

definition stopEverything :: "RunState \<Rightarrow> RunState" where
  "stopEverything s =
     (let s1 = (case audioStopRef s of
                  Some h \<Rightarrow> s\<lparr>playing := (playing s)(h := None), audioStopRef := None\<rparr>
                | None \<Rightarrow> s)
      in case intervalRef s1 of
           Some t \<Rightarrow> s1\<lparr>intervals := (intervals s1)(t := None), intervalRef := None\<rparr>
         | None \<Rightarrow> s1)"

definition cleanup :: "RunState \<Rightarrow> RunState" where
  "cleanup s = (let s1 = stopEverything s in s1\<lparr>opIdRef := opIdRef s1 + 1\<rparr>)"

text \<open>
  The effect on \<^verbatim>\<open>[errorMessage]\<close>: while the message is truthy a timeout of this many
  milliseconds is pending, and its callback sets the message to \<^verbatim>\<open>null\<close>.
\<close>

definition errorMessageEffect :: "string option \<Rightarrow> nat option" where
  "errorMessageEffect m = (case m of None \<Rightarrow> None | Some t \<Rightarrow> if t = [] then None else Some 5000)"

definition errorTimeoutFired :: "RunState \<Rightarrow> RunState" where
  "errorTimeoutFired s = s\<lparr>errorMessage := None\<rparr>"

definition volume :: "RunModeProps \<Rightarrow> real" where
  "volume props = (case alarmVolume (settings props) of None \<Rightarrow> 0.8 | Some v \<Rightarrow> v)"

text \<open>
  \<^verbatim>\<open>playAudioBuffer\<close> starts a source at once; the handle it returns is \<open>nextHandle\<close> of
  the state it was called in.
\<close>

definition playAudioBuffer :: "AudioBuffer \<Rightarrow> real \<Rightarrow> RunState \<Rightarrow> RunState" where
  "playAudioBuffer buffer vol s =
     s\<lparr>playing := (playing s)(nextHandle s \<mapsto> (buffer, vol)),
       nextHandle := Suc (nextHandle s),
       calls := calls s @ [PlayBuffer buffer vol]\<rparr>"

definition clearCurrentInterval :: "RunState \<Rightarrow> RunState" where
  "clearCurrentInterval s =
     (case intervalRef s of
        Some t \<Rightarrow> s\<lparr>intervals := (intervals s)(t := None)\<rparr>
      | None \<Rightarrow> s)"

definition startTimer :: "int \<Rightarrow> nat \<Rightarrow> on_complete \<Rightarrow> RunState \<Rightarrow> RunState" where
  "startTimer duration myOpId onComplete s =
     (let s1 = s\<lparr>remainingSeconds := duration\<rparr>;
          s2 = clearCurrentInterval s1
      in s2\<lparr>intervals := (intervals s2)(nextHandle s2 \<mapsto> \<lparr>tickOpId = myOpId, callback = onComplete\<rparr>),
            intervalRef := Some (nextHandle s2),
            nextHandle := Suc (nextHandle s2)\<rparr>)"

subsection \<open>Pre-loading\<close>

text \<open>
  \<^verbatim>\<open>preloadNextAudio\<close> up to its first \<^verbatim>\<open>await\<close>, then its two continuations. A
  rejection is caught and dropped.
\<close>

definition preloadNextAudio :: "RunModeProps \<Rightarrow> nat \<Rightarrow> RunState \<Rightarrow> RunState" where
  "preloadNextAudio props targetIndex s =
     (if audioCache s targetIndex \<noteq> None then s
      else if targetIndex = length (timers props) then
        s\<lparr>calls := calls s @ [SynthCompletion],
          pending := pending s @ [PreloadSynth targetIndex]\<rparr>
      else if targetIndex < length (timers props) then
        (let step = timers props ! targetIndex
         in s\<lparr>calls := calls s @ [SynthStep (name step) (durationSeconds step)],
              pending := pending s @ [PreloadSynth targetIndex]\<rparr>)
      else s)"

definition preloadNextAudio_synthSettled :: "nat \<Rightarrow> error + string \<Rightarrow> RunState \<Rightarrow> RunState" where
  "preloadNextAudio_synthSettled targetIndex r s =
     (case r of
        Inl e \<Rightarrow> s
      | Inr base64 \<Rightarrow>
          s\<lparr>calls := calls s @ [Decode base64],
            pending := pending s @ [PreloadDecode targetIndex]\<rparr>)"

definition preloadNextAudio_decodeSettled :: "nat \<Rightarrow> error + AudioBuffer \<Rightarrow> RunState \<Rightarrow> RunState" where
  "preloadNextAudio_decodeSettled targetIndex r s =
     (case r of
        Inl e \<Rightarrow> s
      | Inr buffer \<Rightarrow> s\<lparr>audioCache := (audioCache s)(targetIndex \<mapsto> buffer)\<rparr>)"

subsection \<open>runSequence\<close>

text \<open>
  The pieces of \<^verbatim>\<open>runSequence\<close> between its \<^verbatim>\<open>await\<close>s. \<open>runSequence_announce\<close> is lines
  144 to 150, \<open>runSequence_catch\<close> the \<^verbatim>\<open>catch\<close> block of the step branch,
  \<open>runSequence_playFinal\<close> lines 111 to 115 and \<open>runSequence_finish\<close> lines 120 to 123.
\<close>

definition runSequence_announce :: "RunModeProps \<Rightarrow> nat \<Rightarrow> nat \<Rightarrow> AudioBuffer \<Rightarrow> RunState \<Rightarrow> RunState" where
  "runSequence_announce props index myOpId buffer s =
     (if opIdRef s \<noteq> myOpId then s
      else
        (let s1 = s\<lparr>phase := ANNOUNCING\<rparr>;
             h = nextHandle s1;
             s2 = playAudioBuffer buffer (volume props) s1
         in s2\<lparr>audioStopRef := Some h, pending := pending s2 @ [StepDone index myOpId h]\<rparr>))"

definition runSequence_catch :: "RunModeProps \<Rightarrow> nat \<Rightarrow> nat \<Rightarrow> RunState \<Rightarrow> RunState" where
  "runSequence_catch props index myOpId s =
     (if opIdRef s = myOpId then
        (let s1 = s\<lparr>errorMessage := Some ''Audio unavailable - starting silently.''\<rparr>;
             s2 = s1\<lparr>phase := COUNTDOWN\<rparr>;
             s3 = startTimer (durationSeconds (timers props ! index)) myOpId
                    (StepComplete index myOpId) s2
         in preloadNextAudio props (index + 1) s3)
      else s)"

definition runSequence_playFinal :: "RunModeProps \<Rightarrow> nat \<Rightarrow> AudioBuffer \<Rightarrow> RunState \<Rightarrow> RunState" where
  "runSequence_playFinal props myOpId buffer s =
     (if opIdRef s \<noteq> myOpId then s
      else
        (let h = nextHandle s;
             s1 = playAudioBuffer buffer (volume props) s
         in s1\<lparr>audioStopRef := Some h, pending := pending s1 @ [FinalDone myOpId h]\<rparr>))"

definition runSequence_finish :: "nat \<Rightarrow> RunState \<Rightarrow> RunState" where
  "runSequence_finish myOpId s = (if opIdRef s = myOpId then s\<lparr>phase := COMPLETED\<rparr> else s)"

definition runSequence :: "RunModeProps \<Rightarrow> nat \<Rightarrow> RunState \<Rightarrow> RunState" where
  "runSequence props index s =
     (let myOpId = opIdRef s + 1;
          s1 = s\<lparr>opIdRef := myOpId\<rparr>;
          s2 = stopEverything s1;
          s3 = s2\<lparr>errorMessage := None\<rparr>;
          s4 = s3\<lparr>isPaused := False\<rparr>
      in if index \<ge> length (timers props) then
           (let s5 = s4\<lparr>phase := COMPLETION_ANNOUNCEMENT\<rparr>
            in case audioCache s5 index of
                 None \<Rightarrow>
                   s5\<lparr>calls := calls s5 @ [SynthCompletion],
                      pending := pending s5 @ [FinalSynth myOpId]\<rparr>
               | Some buffer \<Rightarrow> runSequence_playFinal props myOpId buffer s5)
         else
           (let s5 = s4\<lparr>currentIndex := index\<rparr>;
                s6 = s5\<lparr>phase := PREPARING_AUDIO\<rparr>;
                step = timers props ! index
            in case audioCache s6 index of
                 None \<Rightarrow>
                   s6\<lparr>calls := calls s6 @ [SynthStep (name step) (durationSeconds step)],
                      pending := pending s6 @ [StepSynth index myOpId]\<rparr>
               | Some buffer \<Rightarrow> runSequence_announce props index myOpId buffer s6))"

definition runSequence_synthSettled ::
    "RunModeProps \<Rightarrow> nat \<Rightarrow> nat \<Rightarrow> error + string \<Rightarrow> RunState \<Rightarrow> RunState" where
  "runSequence_synthSettled props index myOpId r s =
     (case r of
        Inl e \<Rightarrow> runSequence_catch props index myOpId s
      | Inr base64 \<Rightarrow>
          if opIdRef s \<noteq> myOpId then s
          else s\<lparr>calls := calls s @ [Decode base64],
                 pending := pending s @ [StepDecode index myOpId]\<rparr>)"

definition runSequence_decodeSettled ::
    "RunModeProps \<Rightarrow> nat \<Rightarrow> nat \<Rightarrow> error + AudioBuffer \<Rightarrow> RunState \<Rightarrow> RunState" where
  "runSequence_decodeSettled props index myOpId r s =
     (case r of
        Inl e \<Rightarrow> runSequence_catch props index myOpId s
      | Inr buffer \<Rightarrow>
          runSequence_announce props index myOpId buffer
            (s\<lparr>audioCache := (audioCache s)(index \<mapsto> buffer)\<rparr>))"

definition runSequence_doneSettled :: "RunModeProps \<Rightarrow> nat \<Rightarrow> nat \<Rightarrow> RunState \<Rightarrow> RunState" where
  "runSequence_doneSettled props index myOpId s =
     (if opIdRef s \<noteq> myOpId then s
      else
        (let s1 = s\<lparr>audioStopRef := None\<rparr>;
             s2 = s1\<lparr>phase := COUNTDOWN\<rparr>;
             s3 = startTimer (durationSeconds (timers props ! index)) myOpId
                    (StepComplete index myOpId) s2
         in preloadNextAudio props (index + 1) s3))"

definition runSequence_finalSynthSettled ::
    "nat \<Rightarrow> error + string \<Rightarrow> RunState \<Rightarrow> RunState" where
  "runSequence_finalSynthSettled myOpId r s =
     (case r of
        Inl e \<Rightarrow> runSequence_finish myOpId s
      | Inr base64 \<Rightarrow>
          if opIdRef s \<noteq> myOpId then s
          else s\<lparr>calls := calls s @ [Decode base64],
                 pending := pending s @ [FinalDecode myOpId]\<rparr>)"

definition runSequence_finalDecodeSettled ::
    "RunModeProps \<Rightarrow> nat \<Rightarrow> error + AudioBuffer \<Rightarrow> RunState \<Rightarrow> RunState" where
  "runSequence_finalDecodeSettled props myOpId r s =
     (case r of
        Inl e \<Rightarrow> runSequence_finish myOpId s
      | Inr buffer \<Rightarrow> runSequence_playFinal props myOpId buffer s)"

subsection \<open>The end of a countdown\<close>

definition handleStepComplete :: "RunModeProps \<Rightarrow> nat \<Rightarrow> nat \<Rightarrow> RunState \<Rightarrow> RunState" where
  "handleStepComplete props completedIndex myOpId s =
     (if opIdRef s \<noteq> myOpId then s
      else s\<lparr>calls := calls s @ [PlayAlarm (alarmSound (settings props)) (volume props)],
             pending := pending s @ [AlarmWait completedIndex myOpId]\<rparr>)"

text \<open>The alarm's promise has settled; a rejection is caught and the function goes on.\<close>

definition handleStepComplete_alarmSettled :: "RunModeProps \<Rightarrow> nat \<Rightarrow> nat \<Rightarrow> RunState \<Rightarrow> RunState" where
  "handleStepComplete_alarmSettled props completedIndex myOpId s =
     (if opIdRef s \<noteq> myOpId then s
      else
        (let nextIndex = completedIndex + 1
         in if nextIndex < length (timers props) \<and> bufferSeconds (settings props) > 0 then
              (let s1 = s\<lparr>phase := BUFFER\<rparr>;
                   s2 = s1\<lparr>currentIndex := nextIndex\<rparr>
               in startTimer (bufferSeconds (settings props)) myOpId
                    (BufferElapsed nextIndex myOpId) s2)
            else runSequence props nextIndex s))"

text \<open>
  The three \<^verbatim>\<open>onComplete\<close> closures handed to \<^verbatim>\<open>startTimer\<close>: by \<^verbatim>\<open>runSequence\<close>, by
  \<^verbatim>\<open>handleStepComplete\<close> for the buffer, and by \<^verbatim>\<open>togglePause\<close> on resume (which reads
  \<^verbatim>\<open>opIdRef.current\<close> when it runs).
\<close>

definition fire :: "RunModeProps \<Rightarrow> on_complete \<Rightarrow> RunState \<Rightarrow> RunState" where
  "fire props cb s =
     (case cb of
        StepComplete index myOpId \<Rightarrow> handleStepComplete props index myOpId s
      | BufferElapsed nextIndex myOpId \<Rightarrow>
          if opIdRef s = myOpId then runSequence props nextIndex s else s
      | ResumeCallback ph idx \<Rightarrow>
          if ph = BUFFER then runSequence props idx s
          else handleStepComplete props idx (opIdRef s) s)"

text \<open>One firing of the interval \<open>t\<close> that \<^verbatim>\<open>startTimer\<close> registered.\<close>

definition tick :: "RunModeProps \<Rightarrow> nat \<Rightarrow> RunState \<Rightarrow> RunState" where
  "tick props t s =
     (case intervals s t of
        None \<Rightarrow> s
      | Some iv \<Rightarrow>
          if opIdRef s \<noteq> tickOpId iv then clearCurrentInterval s
          else if remainingSeconds s \<le> 1 then
            (let s1 = clearCurrentInterval s;
                 s2 = fire props (callback iv) s1
             in s2\<lparr>remainingSeconds := 0\<rparr>)
          else s\<lparr>remainingSeconds := remainingSeconds s - 1\<rparr>)"

subsection \<open>User actions\<close>

definition handleSkip :: "RunModeProps \<Rightarrow> RunState \<Rightarrow> RunState" where
  "handleSkip props s = runSequence props (currentIndex s + 1) s"

definition togglePause :: "RunState \<Rightarrow> RunState" where
  "togglePause s =
     (if phase s \<noteq> COUNTDOWN \<and> phase s \<noteq> BUFFER then s
      else if isPaused s then
        startTimer (remainingSeconds s) (opIdRef s)
          (ResumeCallback (phase s) (currentIndex s)) (s\<lparr>isPaused := False\<rparr>)
      else clearCurrentInterval (s\<lparr>isPaused := True\<rparr>))"

subsection \<open>The event loop\<close>

text \<open>
  What can happen to a mounted component: a user action, a firing interval, a source
  reaching its end, the error notice timing out, and the settling of an awaited promise,
  which resumes the continuation waiting for it. \<open>deliver\<close> is \<open>None\<close> for an event that
  cannot happen in the state: a tick of an interval that is not registered, the settling
  of a promise nobody awaits, a \<^verbatim>\<open>done\<close> promise whose source still plays.
\<close>

datatype event =
    Mount
  | Skip
  | TogglePause
  | Unmount
  | Tick nat
  | PlaybackEnded nat
  | ErrorTimeout
  | SynthSettled task "error + string"
  | DecodeSettled task "error + AudioBuffer"
  | DoneSettled task
  | AlarmSettled task

definition resumed :: "task \<Rightarrow> RunState \<Rightarrow> RunState" where
  "resumed k s = s\<lparr>pending := remove1 k (pending s)\<rparr>"

definition deliver :: "RunModeProps \<Rightarrow> event \<Rightarrow> RunState \<Rightarrow> RunState option" where
  "deliver props ev s =
     (case ev of
        Mount \<Rightarrow> Some (runSequence props 0 s)
      | Skip \<Rightarrow> Some (handleSkip props s)
      | TogglePause \<Rightarrow> Some (togglePause s)
      | Unmount \<Rightarrow> Some (cleanup s)
      | Tick t \<Rightarrow> if intervals s t = None then None else Some (tick props t s)
      | PlaybackEnded h \<Rightarrow>
          if playing s h = None then None else Some (s\<lparr>playing := (playing s)(h := None)\<rparr>)
      | ErrorTimeout \<Rightarrow>
          if errorMessageEffect (errorMessage s) = None then None else Some (errorTimeoutFired s)
      | SynthSettled k r \<Rightarrow>
          if k \<notin> set (pending s) then None
          else (case k of
                  StepSynth index myOpId \<Rightarrow>
                    Some (runSequence_synthSettled props index myOpId r (resumed k s))
                | FinalSynth myOpId \<Rightarrow>
                    Some (runSequence_finalSynthSettled myOpId r (resumed k s))
                | PreloadSynth targetIndex \<Rightarrow>
                    Some (preloadNextAudio_synthSettled targetIndex r (resumed k s))
                | _ \<Rightarrow> None)
      | DecodeSettled k r \<Rightarrow>
          if k \<notin> set (pending s) then None
          else (case k of
                  StepDecode index myOpId \<Rightarrow>
                    Some (runSequence_decodeSettled props index myOpId r (resumed k s))
                | FinalDecode myOpId \<Rightarrow>
                    Some (runSequence_finalDecodeSettled props myOpId r (resumed k s))
                | PreloadDecode targetIndex \<Rightarrow>
                    Some (preloadNextAudio_decodeSettled targetIndex r (resumed k s))
                | _ \<Rightarrow> None)
      | DoneSettled k \<Rightarrow>
          if k \<notin> set (pending s) then None
          else (case k of
                  StepDone index myOpId h \<Rightarrow>
                    if playing s h \<noteq> None then None
                    else Some (runSequence_doneSettled props index myOpId (resumed k s))
                | FinalDone myOpId h \<Rightarrow>
                    if playing s h \<noteq> None then None
                    else Some (runSequence_finish myOpId (resumed k s))
                | _ \<Rightarrow> None)
      | AlarmSettled k \<Rightarrow>
          if k \<notin> set (pending s) then None
          else (case k of
                  AlarmWait completedIndex myOpId \<Rightarrow>
                    Some (handleStepComplete_alarmSettled props completedIndex myOpId (resumed k s))
                | _ \<Rightarrow> None))"


fun isPlayBuffer :: "call \<Rightarrow> bool" where
  "isPlayBuffer (PlayBuffer buffer vol) = True"
| "isPlayBuffer c = False"

fun run :: "RunModeProps \<Rightarrow> event list \<Rightarrow> RunState \<Rightarrow> RunState option" where
  "run props [] s = Some s"
| "run props (ev # evs) s =
     (case deliver props ev s of None \<Rightarrow> None | Some s' \<Rightarrow> run props evs s')"

text \<open>
  What the user sees of a run: the phase and the step index after each event, up to the
  first event that cannot happen.
\<close>

fun observe :: "RunModeProps \<Rightarrow> event list \<Rightarrow> RunState \<Rightarrow> (TimerPhase \<times> nat) list" where
  "observe props [] s = []"
| "observe props (ev # evs) s =
     (case deliver props ev s of
        None \<Rightarrow> []
      | Some s' \<Rightarrow> (phase s', currentIndex s') # observe props evs s')"

section \<open>Sample inputs\<close>

text \<open>
  A routine of three steps with a rest of one second between them, a decoded clip, a
  model API whose first three calls are rejected and whose fourth returns audio, and a
  model API that answers a transcription request with white space.
\<close>

definition sampleProps :: RunModeProps where
  "sampleProps =
     \<lparr>timers = [\<lparr>stepId = ''a'', name = ''Plank'', durationSeconds = 1\<rparr>,
                \<lparr>stepId = ''b'', name = ''Squats'', durationSeconds = 90\<rparr>,
                \<lparr>stepId = ''c'', name = ''Stretch'', durationSeconds = 45\<rparr>],
      settings = \<lparr>alarmSound = bell, alarmVolume = Some 0.8, bufferSeconds = 1\<rparr>\<rparr>"

text \<open>
  The allocator of a browser: a zero-filled buffer, and a \<^verbatim>\<open>NotSupportedError\<close> for a
  frame count of zero.
\<close>

definition browserCreateBuffer :: "nat \<Rightarrow> nat \<Rightarrow> nat \<Rightarrow> error + AudioBuffer" where
  "browserCreateBuffer numChannels frameCount rate =
     (if frameCount = 0 then Inl (Error ''NotSupportedError'')
      else Inr \<lparr>numberOfChannels = numChannels, sampleRate = rate,
                channelData = replicate frameCount 0\<rparr>)"

definition sampleClip :: AudioBuffer where
  "sampleClip = \<lparr>numberOfChannels = 1, sampleRate = 24000, channelData = [0, 1 / 2]\<rparr>"

definition flakyApi :: genai where
  "flakyApi request k =
     (if k < 3 then Rejects 200 (Error ''503'')
      else Fulfills 900 \<lparr>audioData = Some ''QUJD'', responseText = None\<rparr>)"

definition downApi :: genai where
  "downApi request k = Rejects 200 (Error ''503'')"

text \<open>
  The start of a run of \<open>sampleProps\<close>: the component mounts, the announcement of step 0
  is synthesized, decoded and played to its end, and the countdown of step 0 begins. Then
  the countdown's single second passes and the alarm sounds to its end, which starts the
  rest before step 1.
\<close>

definition toCountdown :: "event list" where
  "toCountdown =
     [Mount, SynthSettled (StepSynth 0 1) (Inr ''QUJD''),
      DecodeSettled (StepDecode 0 1) (Inr sampleClip), PlaybackEnded 1,
      DoneSettled (StepDone 0 1 1)]"

definition toBuffer :: "event list" where
  "toBuffer = toCountdown @ [Tick 2, AlarmSettled (AlarmWait 0 1)]"

definition blankApi :: genai where
  "blankApi request k = Fulfills 700 \<lparr>audioData = None, responseText = Some [32, 10]\<rparr>"

section \<open>Properties of the Speech Service client\<close>

subsection \<open>Retries\<close>

lemma retry_Inr: "fn k = Inr v \<Longrightarrow> retry fn k retries delay = (Inr v, [])"
  by (subst retry.simps) simp

lemma retry_Inl_last: "fn k = Inl e \<Longrightarrow> retries \<le> 0 \<Longrightarrow> retry fn k retries delay = (Inl e, [])"
  by (subst retry.simps) simp

lemma retry_Inl_again:
  "fn k = Inl e \<Longrightarrow> 0 < retries \<Longrightarrow>
   retry fn k retries delay =
     (fst (retry fn (Suc k) (retries - 1) (delay * 2)),
      delay # snd (retry fn (Suc k) (retries - 1) (delay * 2)))"
  by (subst retry.simps) (simp add: split_beta)

lemma retry_first_success:
  "\<forall>j<n. isl (fn (k + j)) \<Longrightarrow> fn (k + n) = Inr v \<Longrightarrow> int n \<le> retries \<Longrightarrow>
   fst (retry fn k retries delay) = Inr v"
proof (induction n arbitrary: k retries delay)
  case 0
  then show ?case by (simp add: retry_Inr)
next
  case (Suc n)
  from Suc.prems(1) have "isl (fn k)" by force
  then obtain e where e: "fn k = Inl e" by (cases "fn k") simp_all
  have pos: "0 < retries" using Suc.prems(3) by simp
  have "fst (retry fn (Suc k) (retries - 1) (delay * 2)) = Inr v"
  proof (rule Suc.IH)
    show "\<forall>j<n. isl (fn (Suc k + j))" using Suc.prems(1) by force
    show "fn (Suc k + n) = Inr v" using Suc.prems(2) by simp
    show "int n \<le> retries - 1" using Suc.prems(3) by simp
  qed
  then show ?case by (simp add: retry_Inl_again [of fn k e retries delay] e pos)
qed

lemma retry_all_fail:
  "\<forall>j\<le>n. isl (fn (k + j)) \<Longrightarrow> retries = int n \<Longrightarrow>
   fst (retry fn k retries delay) = fn (k + n)
   \<and> snd (retry fn k retries delay) = map (\<lambda>j. delay * 2 ^ j) [0..<n]"
proof (induction n arbitrary: k retries delay)
  case 0
  from 0(1) have "isl (fn k)" by force
  then obtain e where "fn k = Inl e" by (cases "fn k") simp_all
  then show ?case using 0(2) by (simp add: retry_Inl_last)
next
  case (Suc n)
  from Suc.prems(1) have "isl (fn k)" by force
  then obtain e where e: "fn k = Inl e" by (cases "fn k") simp_all
  have pos: "0 < retries" using Suc.prems(2) by simp
  have ih: "fst (retry fn (Suc k) (retries - 1) (delay * 2)) = fn (Suc k + n)
    \<and> snd (retry fn (Suc k) (retries - 1) (delay * 2)) = map (\<lambda>j. delay * 2 * 2 ^ j) [0..<n]"
  proof (rule Suc.IH)
    show "\<forall>j\<le>n. isl (fn (Suc k + j))" using Suc.prems(1) by force
    show "retries - 1 = int n" using Suc.prems(2) by simp
  qed
  have "map (\<lambda>j. delay * 2 ^ j) [0..<Suc n] = delay # map (\<lambda>j. delay * 2 * 2 ^ j) [0..<n]"
    by (simp add: upt_conv_Cons map_Suc_upt [symmetric] del: upt_Suc)
  then show ?case using ih by (simp add: retry_Inl_again [of fn k e retries delay] e pos del: upt_Suc)
qed

lemma retry_rejects_iff:
  "0 \<le> retries \<Longrightarrow> isl (fst (retry fn k retries delay)) \<longleftrightarrow> (\<forall>j \<le> nat retries. isl (fn (k + j)))"
proof
  assume r: "0 \<le> retries" and rej: "isl (fst (retry fn k retries delay))"
  show "\<forall>j \<le> nat retries. isl (fn (k + j))"
  proof (rule ccontr)
    assume "\<not> (\<forall>j \<le> nat retries. isl (fn (k + j)))"
    then have ex: "\<exists>j. j \<le> nat retries \<and> \<not> isl (fn (k + j))" by blast
    define n where "n = (LEAST j. j \<le> nat retries \<and> \<not> isl (fn (k + j)))"
    have n: "n \<le> nat retries \<and> \<not> isl (fn (k + n))"
      unfolding n_def using ex by (rule LeastI_ex)
    have before: "\<forall>j<n. isl (fn (k + j))"
    proof (intro allI impI)
      fix j assume "j < n"
      then have "\<not> (j \<le> nat retries \<and> \<not> isl (fn (k + j)))"
        unfolding n_def by (rule not_less_Least)
      then show "isl (fn (k + j))" using \<open>j < n\<close> n by simp
    qed
    obtain v where "fn (k + n) = Inr v" using n by (cases "fn (k + n)") simp_all
    moreover have "int n \<le> retries" using n r by linarith
    ultimately have "fst (retry fn k retries delay) = Inr v"
      using before by (intro retry_first_success) simp_all
    then show False using rej by simp
  qed
next
  assume r: "0 \<le> retries" and all: "\<forall>j \<le> nat retries. isl (fn (k + j))"
  then have "fst (retry fn k retries delay) = fn (k + nat retries)"
    using retry_all_fail [of "nat retries" fn k retries delay] by simp
  then show "isl (fst (retry fn k retries delay))" using all by simp
qed

lemma trim_blank: "\<forall>c\<in>set t. isWhiteSpace c \<Longrightarrow> trim t = []"
proof -
  assume "\<forall>c\<in>set t. isWhiteSpace c"
  then have "dropWhile isWhiteSpace t = []" by (rule dropWhile_eq_Nil_conv [THEN iffD2])
  then show ?thesis unfolding trim_def by (simp only: rev.simps dropWhile.simps)
qed


lemma transcribeApiCall_isl:
  "isl (transcribeApiCall ai b m k)
     \<longleftrightarrow> isl (withTimeout (ai (transcribeRequest b m) k) 15000 ''Transcription timed out'')"
  by (simp add: transcribeApiCall_def split: sum.splits)


text \<open>
  C5 as stated fails: a model call that succeeds with white space only makes
  \<^verbatim>\<open>transcribeAudio\<close> resolve with the empty string instead of rejecting.
\<close>

theorem transcribe_blank_resolves:
  "withTimeout (blankApi (transcribeRequest ''AAAA'' ''audio/webm'') 0) 15000 ''Transcription timed out''
     = Inr \<lparr>audioData = None, responseText = Some [32, 10]\<rparr>
   \<and> trim [32, 10] = []
   \<and> transcribeAudio blankApi ''AAAA'' ''audio/webm'' = Inr []"
  by (simp add: transcribeAudio_def retry_Inr transcribeApiCall_def blankApi_def withTimeout_def
      trim_def isWhiteSpace_def)


text \<open>
  C5, amended. \<^verbatim>\<open>transcribeAudio\<close> rejects exactly when all three attempts (the first
  and two retries) are rejected or time out after 15 seconds. When the first attempt that
  succeeds yields no text, or white space only, it resolves with the empty string.
\<close>

theorem transcribeAudio_outcome:
  "(isl (transcribeAudio ai b m) \<longleftrightarrow>
      (\<forall>k\<le>2. isl (withTimeout (ai (transcribeRequest b m) k) 15000 ''Transcription timed out'')))
   \<and> (n \<le> 2
        \<and> (\<forall>j<n. isl (withTimeout (ai (transcribeRequest b m) j) 15000 ''Transcription timed out''))
        \<and> withTimeout (ai (transcribeRequest b m) n) 15000 ''Transcription timed out'' = Inr response
        \<and> (case responseText response of None \<Rightarrow> True | Some t \<Rightarrow> \<forall>c\<in>set t. isWhiteSpace c)
      \<longrightarrow> transcribeAudio ai b m = Inr [])"
proof (intro conjI impI)
  have "isl (transcribeAudio ai b m) \<longleftrightarrow> (\<forall>j\<le>nat 2. isl (transcribeApiCall ai b m (0 + j)))"
    unfolding transcribeAudio_def by (rule retry_rejects_iff) simp
  then show "isl (transcribeAudio ai b m) \<longleftrightarrow>
      (\<forall>k\<le>2. isl (withTimeout (ai (transcribeRequest b m) k) 15000 ''Transcription timed out''))"
    by (simp add: transcribeApiCall_isl)
next
  assume a: "n \<le> 2
        \<and> (\<forall>j<n. isl (withTimeout (ai (transcribeRequest b m) j) 15000 ''Transcription timed out''))
        \<and> withTimeout (ai (transcribeRequest b m) n) 15000 ''Transcription timed out'' = Inr response
        \<and> (case responseText response of None \<Rightarrow> True | Some t \<Rightarrow> \<forall>c\<in>set t. isWhiteSpace c)"
  then have "transcribeApiCall ai b m (0 + n) = Inr []"
    by (auto simp: transcribeApiCall_def trim_blank split: option.splits)
  moreover have "\<forall>j<n. isl (transcribeApiCall ai b m (0 + j))"
    using a by (simp add: transcribeApiCall_isl)
  moreover have "int n \<le> 2" using a by simp
  ultimately show "transcribeAudio ai b m = Inr []"
    unfolding transcribeAudio_def by (intro retry_first_success)
qed

theorem transcribeAudio_outcome_witness:
  "transcribeAudio blankApi ''AAAA'' ''audio/webm'' = Inr []
   \<and> isl (transcribeAudio downApi ''AAAA'' ''audio/webm'')"
proof -
  have "transcribeAudio blankApi ''AAAA'' ''audio/webm'' = Inr []"
    using transcribeAudio_outcome [of blankApi "''AAAA''" "''audio/webm''" 0
        "\<lparr>audioData = None, responseText = Some [32, 10]\<rparr>"]
    by (simp add: blankApi_def withTimeout_def isWhiteSpace_def)
  moreover have "isl (transcribeAudio downApi ''AAAA'' ''audio/webm'')"
    using transcribeAudio_outcome [of downApi "''AAAA''" "''audio/webm''" 0 undefined]
    by (simp add: downApi_def withTimeout_def)
  ultimately show ?thesis by simp
qed


subsection \<open>The duration phrase\<close>

lemma decimal_not_Nil: "decimal n \<noteq> []"
  by (subst decimal.simps) simp

lemma js_rem_60: "0 \<le> a \<Longrightarrow> js_rem a 60 = a mod 60"
  by (cases "a = 0") (simp_all add: js_rem_def)

lemma timeString_nonneg: "0 \<le> d \<Longrightarrow> timeString d = spec_duration_phrase (nat d)"
proof -
  assume d: "0 \<le> d"
  have m: "nat d div 60 = nat (d div 60)" using d by (simp add: nat_div_distrib)
  have s: "nat d mod 60 = nat (d mod 60)" using d by (simp add: nat_mod_distrib)
  have m0: "0 \<le> d div 60" using d by simp
  have s0: "0 \<le> d mod 60" by simp
  show ?thesis
    using m0 s0
    by (auto simp: timeString_def spec_duration_phrase_def counted_def toString_def Let_def m s
         js_rem_60 [OF d] decimal_not_Nil)
qed

text \<open>
  C6. For every whole number of seconds from zero up, the phrase built by
  \<^verbatim>\<open>generateTimerAnnouncement\<close> is the phrase of the specification, with each unit in the
  plural exactly when its count is not one, and it is the phrase the prompt carries; 0, 45,
  60 and 90 seconds give the four phrases listed.
\<close>

theorem timeString_phrase:
  "(0 \<le> d \<longrightarrow>
      timeString d = spec_duration_phrase (nat d)
      \<and> announcementPrompt taskName d =
          ''Say enthusiastically and clearly: '' @ [CHR 0x22] @ ''Begin '' @ taskName @ '' for ''
            @ spec_duration_phrase (nat d) @ ''.'' @ [CHR 0x22])
   \<and> timeString 0 = ''0 seconds''
   \<and> timeString 45 = ''45 seconds''
   \<and> timeString 60 = ''1 minute''
   \<and> timeString 90 = ''1 minute and 30 seconds''"
proof (intro conjI impI)
  assume "0 \<le> d"
  then show "timeString d = spec_duration_phrase (nat d)" by (rule timeString_nonneg)
  then show "announcementPrompt taskName d =
          ''Say enthusiastically and clearly: '' @ [CHR 0x22] @ ''Begin '' @ taskName @ '' for ''
            @ spec_duration_phrase (nat d) @ ''.'' @ [CHR 0x22]"
    by (simp add: announcementPrompt_def)
next
  show "timeString 0 = ''0 seconds''" by (simp add: timeString_def js_rem_def)
  show "timeString 45 = ''45 seconds''" by (simp add: timeString_def js_rem_def toString_def Let_def)
  show "timeString 60 = ''1 minute''" by (simp add: timeString_def js_rem_def toString_def Let_def)
  show "timeString 90 = ''1 minute and 30 seconds''"
    by (simp add: timeString_def js_rem_def toString_def Let_def)
qed

theorem timeString_phrase_witness:
  "timeString 150 = ''2 minutes and 30 seconds'' \<and> timeString 1 = ''1 second''
   \<and> timeString 3600 = ''60 minutes''"
  using timeString_phrase [of 150] timeString_phrase [of 1] timeString_phrase [of 3600]
  by (simp add: spec_duration_phrase_def counted_def)

section \<open>Properties of the decoder\<close>







lemma fold_update_prefix:
  "m \<le> length xs \<Longrightarrow> fold (\<lambda>i a. a[i := f i]) [0..<m] xs = map f [0..<m] @ drop m xs"
proof (induction m)
  case 0
  then show ?case by simp
next
  case (Suc m)
  then have m: "m < length xs" by simp
  have "fold (\<lambda>i a. a[i := f i]) [0..<Suc m] xs = (map f [0..<m] @ drop m xs)[m := f m]"
    using Suc by simp
  also have "\<dots> = map f [0..<m] @ (drop m xs)[0 := f m]"
    by (simp add: list_update_append)
  also have "drop m xs = xs ! m # drop (Suc m) xs"
    using m by (simp add: Cons_nth_drop_Suc)
  finally show ?case by simp
qed

lemma fold_update_all:
  "length xs = n \<Longrightarrow> fold (\<lambda>i a. a[i := f i]) [0..<n] xs = map f [0..<n]"
  using fold_update_prefix [of n xs f] by simp

lemma length_int16Pairs: "length (int16Pairs bs) = length bs div 2"
  by (induction bs rule: int16Pairs.induct) simp_all


lemma safeLen_eq: "(if len mod 2 = 0 then len else len - 1) = 2 * (len div 2)" for len :: nat
  by presburger


lemma decodeBinaryString_rejected:
  assumes "createBuffer 1 (length bs div 2) 24000 = Inl e"
  shows "decodeBinaryString createBuffer bs = Inl e"
proof -
  define n where "n = length bs div 2"
  have "fold (\<lambda>i b. b[i := of_nat (bs ! i)]) [0..<2 * n] (replicate (2 * n) (0 :: 8 word))
      = map (\<lambda>i. of_nat (bs ! i)) [0..<2 * n]"
    by (rule fold_update_all) simp
  then show ?thesis
    unfolding decodeBinaryString_def Let_def safeLen_eq n_def [symmetric]
    using assms by (simp add: Int16Array_def length_int16Pairs n_def)
qed

lemma decodeBinaryString_short:
  "length bs < 2 \<Longrightarrow>
   decodeBinaryString browserCreateBuffer bs = Inl (Error ''NotSupportedError'')"
  by (rule decodeBinaryString_rejected) (simp add: browserCreateBuffer_def)





section \<open>Properties of the application shell\<close>

text \<open>
  C9. With an empty step list the start operation changes nothing, so a status of SETUP
  stays SETUP and RUNNING is not entered; with a non-empty list the status becomes RUNNING.
\<close>

theorem handleStart_gate:
  "(timers a = [] \<longrightarrow> handleStart a = a \<and> (status a = SETUP \<longrightarrow> status (handleStart a) = SETUP
       \<and> status (handleStart a) \<noteq> RUNNING))
   \<and> (timers a \<noteq> [] \<longrightarrow> status (handleStart a) = RUNNING)"
  by (simp add: handleStart_def)

theorem handleStart_gate_witness:
  "status (handleStart \<lparr>timers = [],
      settings = \<lparr>alarmSound = bell, alarmVolume = Some 0.8, bufferSeconds = 0\<rparr>,
      status = SETUP\<rparr>) = SETUP
   \<and> status (handleStart \<lparr>timers = [\<lparr>stepId = ''a'', name = ''Plank'', durationSeconds = 60\<rparr>],
      settings = \<lparr>alarmSound = bell, alarmVolume = Some 0.8, bufferSeconds = 0\<rparr>,
      status = SETUP\<rparr>) = RUNNING"
  using handleStart_gate [of "\<lparr>timers = [],
      settings = \<lparr>alarmSound = bell, alarmVolume = Some 0.8, bufferSeconds = 0\<rparr>,
      status = SETUP\<rparr>"]
    handleStart_gate [of "\<lparr>timers = [\<lparr>stepId = ''a'', name = ''Plank'', durationSeconds = 60\<rparr>],
      settings = \<lparr>alarmSound = bell, alarmVolume = Some 0.8, bufferSeconds = 0\<rparr>,
      status = SETUP\<rparr>"]
  by simp

section \<open>Properties of the sequence controller\<close>

lemmas controller_defs =
  runSequence_def stopEverything_def runSequence_announce_def
  runSequence_catch_def runSequence_playFinal_def runSequence_finish_def
  runSequence_synthSettled_def runSequence_decodeSettled_def runSequence_doneSettled_def
  runSequence_finalSynthSettled_def runSequence_finalDecodeSettled_def
  preloadNextAudio_def preloadNextAudio_synthSettled_def preloadNextAudio_decodeSettled_def
  handleStepComplete_def handleStepComplete_alarmSettled_def fire_def tick_def
  handleSkip_def togglePause_def cleanup_def startTimer_def clearCurrentInterval_def
  playAudioBuffer_def volume_def resumed_def errorTimeoutFired_def errorMessageEffect_def

lemmas sample_defs =
  toBuffer_def toCountdown_def initialState_def sampleProps_def sampleClip_def

subsection \<open>The generation counter through every operation\<close>

lemma opIdRef_stopEverything [simp]: "opIdRef (stopEverything s) = opIdRef s"
  by (simp add: stopEverything_def Let_def split: option.splits)

lemma opIdRef_clearCurrentInterval [simp]: "opIdRef (clearCurrentInterval s) = opIdRef s"
  by (simp add: clearCurrentInterval_def split: option.splits)

lemma opIdRef_startTimer [simp]: "opIdRef (startTimer d g cb s) = opIdRef s"
  by (simp add: startTimer_def Let_def)

lemma opIdRef_playAudioBuffer [simp]: "opIdRef (playAudioBuffer b v s) = opIdRef s"
  by (simp add: playAudioBuffer_def)

lemma opIdRef_preloadNextAudio [simp]: "opIdRef (preloadNextAudio props i s) = opIdRef s"
  by (simp add: preloadNextAudio_def Let_def)

lemma opIdRef_preload_synthSettled [simp]:
  "opIdRef (preloadNextAudio_synthSettled i r s) = opIdRef s"
  by (simp add: preloadNextAudio_synthSettled_def split: sum.splits)

lemma opIdRef_preload_decodeSettled [simp]:
  "opIdRef (preloadNextAudio_decodeSettled i r s) = opIdRef s"
  by (simp add: preloadNextAudio_decodeSettled_def split: sum.splits)

lemma opIdRef_announce [simp]: "opIdRef (runSequence_announce props i g b s) = opIdRef s"
  by (simp add: runSequence_announce_def Let_def)

lemma opIdRef_catch [simp]: "opIdRef (runSequence_catch props i g s) = opIdRef s"
  by (simp add: runSequence_catch_def Let_def)

lemma opIdRef_playFinal [simp]: "opIdRef (runSequence_playFinal props g b s) = opIdRef s"
  by (simp add: runSequence_playFinal_def Let_def)

lemma opIdRef_finish [simp]: "opIdRef (runSequence_finish g s) = opIdRef s"
  by (simp add: runSequence_finish_def)

lemma opIdRef_runSequence [simp]: "opIdRef (runSequence props i s) = opIdRef s + 1"
  by (simp add: runSequence_def Let_def split: option.splits)

lemma opIdRef_synthSettled [simp]: "opIdRef (runSequence_synthSettled props i g r s) = opIdRef s"
  by (simp add: runSequence_synthSettled_def split: sum.splits)

lemma opIdRef_decodeSettled [simp]: "opIdRef (runSequence_decodeSettled props i g r s) = opIdRef s"
  by (simp add: runSequence_decodeSettled_def split: sum.splits)

lemma opIdRef_doneSettled [simp]: "opIdRef (runSequence_doneSettled props i g s) = opIdRef s"
  by (simp add: runSequence_doneSettled_def Let_def)

lemma opIdRef_finalSynthSettled [simp]: "opIdRef (runSequence_finalSynthSettled g r s) = opIdRef s"
  by (simp add: runSequence_finalSynthSettled_def split: sum.splits)

lemma opIdRef_finalDecodeSettled [simp]:
  "opIdRef (runSequence_finalDecodeSettled props g r s) = opIdRef s"
  by (simp add: runSequence_finalDecodeSettled_def split: sum.splits)

lemma opIdRef_handleStepComplete [simp]: "opIdRef (handleStepComplete props i g s) = opIdRef s"
  by (simp add: handleStepComplete_def)

lemma opIdRef_alarmSettled: "opIdRef s \<le> opIdRef (handleStepComplete_alarmSettled props i g s)"
  by (simp add: handleStepComplete_alarmSettled_def Let_def)

lemma opIdRef_fire: "opIdRef s \<le> opIdRef (fire props cb s)"
  by (simp add: fire_def split: on_complete.splits)

lemma opIdRef_tick: "opIdRef s \<le> opIdRef (tick props t s)"
proof (cases "intervals s t")
  case None
  then show ?thesis by (simp add: tick_def)
next
  case (Some iv)
  have "opIdRef (clearCurrentInterval s) \<le> opIdRef (fire props (callback iv) (clearCurrentInterval s))"
    by (rule opIdRef_fire)
  then show ?thesis using Some by (simp add: tick_def Let_def)
qed

lemma opIdRef_togglePause [simp]: "opIdRef (togglePause s) = opIdRef s"
  by (simp add: togglePause_def)

lemma opIdRef_handleSkip [simp]: "opIdRef (handleSkip props s) = opIdRef s + 1"
  by (simp add: handleSkip_def)

lemma opIdRef_cleanup [simp]: "opIdRef (cleanup s) = opIdRef s + 1"
  by (simp add: cleanup_def Let_def)

lemma opIdRef_resumed [simp]: "opIdRef (resumed k s) = opIdRef s"
  by (simp add: resumed_def)

lemma opIdRef_deliver: "deliver props ev s = Some s' \<Longrightarrow> opIdRef s \<le> opIdRef s'"
proof (cases ev)
  case (Tick t)
  then show "deliver props ev s = Some s' \<Longrightarrow> opIdRef s \<le> opIdRef s'"
    using opIdRef_tick [of s props t] by (auto simp: deliver_def split: if_splits)
next
  case (AlarmSettled k)
  then show "deliver props ev s = Some s' \<Longrightarrow> opIdRef s \<le> opIdRef s'"
    using opIdRef_alarmSettled [of "resumed k s"]
    by (auto simp: deliver_def split: if_splits task.splits)
qed (auto simp: deliver_def errorTimeoutFired_def split: if_splits task.splits)


subsection \<open>The announcement cache through every operation\<close>

lemma audioCache_stopEverything [simp]: "audioCache (stopEverything s) = audioCache s"
  by (simp add: stopEverything_def Let_def split: option.splits)

lemma audioCache_clearCurrentInterval [simp]: "audioCache (clearCurrentInterval s) = audioCache s"
  by (simp add: clearCurrentInterval_def split: option.splits)

lemma audioCache_startTimer [simp]: "audioCache (startTimer d g cb s) = audioCache s"
  by (simp add: startTimer_def Let_def)

lemma audioCache_playAudioBuffer [simp]: "audioCache (playAudioBuffer b v s) = audioCache s"
  by (simp add: playAudioBuffer_def)

lemma audioCache_preloadNextAudio [simp]: "audioCache (preloadNextAudio props i s) = audioCache s"
  by (simp add: preloadNextAudio_def Let_def)

lemma audioCache_preload_synthSettled [simp]:
  "audioCache (preloadNextAudio_synthSettled i r s) = audioCache s"
  by (simp add: preloadNextAudio_synthSettled_def split: sum.splits)

lemma audioCache_announce [simp]: "audioCache (runSequence_announce props i g b s) = audioCache s"
  by (simp add: runSequence_announce_def Let_def)

lemma audioCache_catch [simp]: "audioCache (runSequence_catch props i g s) = audioCache s"
  by (simp add: runSequence_catch_def Let_def)

lemma audioCache_playFinal [simp]: "audioCache (runSequence_playFinal props g b s) = audioCache s"
  by (simp add: runSequence_playFinal_def Let_def)

lemma audioCache_finish [simp]: "audioCache (runSequence_finish g s) = audioCache s"
  by (simp add: runSequence_finish_def)

lemma audioCache_runSequence [simp]: "audioCache (runSequence props i s) = audioCache s"
  by (simp add: runSequence_def Let_def split: option.splits)

lemma audioCache_synthSettled [simp]:
  "audioCache (runSequence_synthSettled props i g r s) = audioCache s"
  by (simp add: runSequence_synthSettled_def split: sum.splits)

lemma audioCache_doneSettled [simp]:
  "audioCache (runSequence_doneSettled props i g s) = audioCache s"
  by (simp add: runSequence_doneSettled_def Let_def)

lemma audioCache_finalSynthSettled [simp]:
  "audioCache (runSequence_finalSynthSettled g r s) = audioCache s"
  by (simp add: runSequence_finalSynthSettled_def split: sum.splits)

lemma audioCache_finalDecodeSettled [simp]:
  "audioCache (runSequence_finalDecodeSettled props g r s) = audioCache s"
  by (simp add: runSequence_finalDecodeSettled_def split: sum.splits)

lemma audioCache_handleStepComplete [simp]:
  "audioCache (handleStepComplete props i g s) = audioCache s"
  by (simp add: handleStepComplete_def)

lemma audioCache_alarmSettled [simp]:
  "audioCache (handleStepComplete_alarmSettled props i g s) = audioCache s"
  by (simp add: handleStepComplete_alarmSettled_def Let_def)

lemma audioCache_fire [simp]: "audioCache (fire props cb s) = audioCache s"
  by (simp add: fire_def split: on_complete.splits)

lemma audioCache_tick [simp]: "audioCache (tick props t s) = audioCache s"
  by (simp add: tick_def Let_def split: option.splits)

lemma audioCache_togglePause [simp]: "audioCache (togglePause s) = audioCache s"
  by (simp add: togglePause_def)

lemma audioCache_handleSkip [simp]: "audioCache (handleSkip props s) = audioCache s"
  by (simp add: handleSkip_def)

lemma audioCache_cleanup [simp]: "audioCache (cleanup s) = audioCache s"
  by (simp add: cleanup_def Let_def)

lemma audioCache_resumed [simp]: "audioCache (resumed k s) = audioCache s"
  by (simp add: resumed_def)





subsection \<open>Pre-loading\<close>


text \<open>
  C10. When the target index lies beyond the completion index, or is already in the cache,
  \<^verbatim>\<open>preloadNextAudio\<close> returns the state it was given: nothing is added to the calls made
  to the Speech Service or the decoder, no continuation is left waiting, and the cache is as
  it was.
\<close>

theorem preloadNextAudio_noop:
  "length (timers props) < targetIndex \<or> audioCache s targetIndex \<noteq> None \<Longrightarrow>
   preloadNextAudio props targetIndex s = s
   \<and> calls (preloadNextAudio props targetIndex s) = calls s
   \<and> pending (preloadNextAudio props targetIndex s) = pending s
   \<and> audioCache (preloadNextAudio props targetIndex s) = audioCache s"
  by (auto simp: preloadNextAudio_def)

theorem preloadNextAudio_noop_witness:
  "calls (preloadNextAudio sampleProps 4 initialState) = []
   \<and> pending (preloadNextAudio sampleProps 4 initialState) = []
   \<and> preloadNextAudio sampleProps 1 (initialState\<lparr>audioCache := [1 \<mapsto> sampleClip]\<rparr>)
       = initialState\<lparr>audioCache := [1 \<mapsto> sampleClip]\<rparr>"
  using preloadNextAudio_noop [of sampleProps 4 initialState]
    preloadNextAudio_noop [of sampleProps 1 "initialState\<lparr>audioCache := [1 \<mapsto> sampleClip]\<rparr>"]
  by (simp add: sampleProps_def initialState_def)




subsection \<open>Failures while preparing an announcement\<close>

lemma catch_live:
  "opIdRef s = g \<Longrightarrow>
   errorMessage (runSequence_catch props i g s) = Some ''Audio unavailable - starting silently.''
   \<and> phase (runSequence_catch props i g s) = COUNTDOWN
   \<and> currentIndex (runSequence_catch props i g s) = currentIndex s
   \<and> remainingSeconds (runSequence_catch props i g s) = durationSeconds (timers props ! i)
   \<and> intervalRef (runSequence_catch props i g s) = Some (nextHandle s)
   \<and> intervals (runSequence_catch props i g s) (nextHandle s)
       = Some \<lparr>tickOpId = g, callback = StepComplete i g\<rparr>
   \<and> playing (runSequence_catch props i g s) = playing s
   \<and> audioStopRef (runSequence_catch props i g s) = audioStopRef s
   \<and> filter isPlayBuffer (calls (runSequence_catch props i g s)) = filter isPlayBuffer (calls s)"
  by (simp add: runSequence_catch_def startTimer_def clearCurrentInterval_def
      preloadNextAudio_def Let_def split: option.splits)

lemma deliver_synth_rejected:
  "deliver props (SynthSettled (StepSynth i g) (Inl e)) s =
     (if StepSynth i g \<in> set (pending s)
      then Some (runSequence_catch props i g (resumed (StepSynth i g) s)) else None)"
  by (simp add: deliver_def runSequence_synthSettled_def)

lemma deliver_decode_rejected:
  "deliver props (DecodeSettled (StepDecode i g) (Inl e)) s =
     (if StepDecode i g \<in> set (pending s)
      then Some (runSequence_catch props i g (resumed (StepDecode i g) s)) else None)"
  by (simp add: deliver_def runSequence_decodeSettled_def)

lemma resumed_fields [simp]:
  "phase (resumed k s) = phase s" "currentIndex (resumed k s) = currentIndex s"
  "remainingSeconds (resumed k s) = remainingSeconds s" "isPaused (resumed k s) = isPaused s"
  "errorMessage (resumed k s) = errorMessage s" "audioStopRef (resumed k s) = audioStopRef s"
  "intervalRef (resumed k s) = intervalRef s" "playing (resumed k s) = playing s"
  "intervals (resumed k s) = intervals s" "nextHandle (resumed k s) = nextHandle s"
  "calls (resumed k s) = calls s"
  by (simp_all add: resumed_def)

lemma deliver_error_timeout:
  "errorMessage s = Some ''Audio unavailable - starting silently.'' \<Longrightarrow>
   deliver props ErrorTimeout s = Some (errorTimeoutFired s)"
  by (simp add: deliver_def errorMessageEffect_def)

text \<open>
  C4. Take a step index and a continuation of \<^verbatim>\<open>runSequence\<close> for it whose generation is
  the current one. When the awaited synthesis or the awaited decoding is rejected, the event
  leaves the notice ``Audio unavailable - starting silently.'' set, for which the
  auto-dismiss effect holds a timeout of 5000 ms that clears it; the phase is Countdown,
  the remaining seconds are the step's \<^verbatim>\<open>durationSeconds\<close>, an interval under the same
  generation is registered that will call \<^verbatim>\<open>handleStepComplete\<close> for the step, and no clip
  is played: the playing sources, the stop handle and the clip-playing calls are as before.
\<close>

theorem announcement_failure_nonfatal:
  assumes "index < length (timers props)"
    and "opIdRef s = myOpId"
    and "ev = SynthSettled (StepSynth index myOpId) (Inl e)
         \<or> ev = DecodeSettled (StepDecode index myOpId) (Inl e)"
    and "deliver props ev s = Some s'"
  shows "errorMessage s' = Some ''Audio unavailable - starting silently.''
    \<and> errorMessageEffect (errorMessage s') = Some 5000
    \<and> (\<exists>s''. deliver props ErrorTimeout s' = Some s'' \<and> errorMessage s'' = None)
    \<and> phase s' = COUNTDOWN
    \<and> remainingSeconds s' = durationSeconds (timers props ! index)
    \<and> (\<exists>t. intervalRef s' = Some t
           \<and> intervals s' t = Some \<lparr>tickOpId = myOpId, callback = StepComplete index myOpId\<rparr>)
    \<and> playing s' = playing s
    \<and> audioStopRef s' = audioStopRef s
    \<and> filter isPlayBuffer (calls s') = filter isPlayBuffer (calls s)"
proof -
  obtain k where k: "s' = runSequence_catch props index myOpId (resumed k s)"
    using assms(3,4)
    by (auto simp: deliver_synth_rejected deliver_decode_rejected split: if_splits)
  have live: "opIdRef (resumed k s) = myOpId" using assms(2) by simp
  note c = catch_live [OF live, of props index, folded k]
  have "deliver props ErrorTimeout s' = Some (errorTimeoutFired s')"
    using c by (intro deliver_error_timeout) simp
  moreover have "errorMessage (errorTimeoutFired s') = None"
    by (simp add: errorTimeoutFired_def)
  ultimately have "\<exists>s''. deliver props ErrorTimeout s' = Some s'' \<and> errorMessage s'' = None"
    by simp
  then show ?thesis using c by (simp add: errorMessageEffect_def)
qed

theorem announcement_failure_nonfatal_witness:
  "(\<exists>s'. deliver sampleProps (SynthSettled (StepSynth 0 1) (Inl (Error ''503'')))
            (runSequence sampleProps 0 initialState) = Some s'
        \<and> errorMessage s' = Some ''Audio unavailable - starting silently.''
        \<and> phase s' = COUNTDOWN \<and> remainingSeconds s' = 1
        \<and> filter isPlayBuffer (calls s') = [])"
proof -
  let ?s = "runSequence sampleProps 0 initialState"
  let ?ev = "SynthSettled (StepSynth 0 1) (Inl (Error ''503''))"
  have p: "pending ?s = [StepSynth 0 1]" "opIdRef ?s = 1" "calls ?s = [SynthStep ''Plank'' 1]"
    by (simp_all add: runSequence_def stopEverything_def initialState_def sampleProps_def Let_def)
  then obtain s' where s': "deliver sampleProps ?ev ?s = Some s'"
    by (simp add: deliver_synth_rejected)
  have i: "0 < length (timers sampleProps)" by (simp add: sampleProps_def)
  have "errorMessage s' = Some ''Audio unavailable - starting silently.''
        \<and> phase s' = COUNTDOWN \<and> remainingSeconds s' = 1
        \<and> filter isPlayBuffer (calls s') = []"
    using announcement_failure_nonfatal [OF i p(2) _ s', of "Error ''503''"] p(3)
    by (simp add: sampleProps_def)
  with s' show ?thesis by blast
qed

text \<open>
  C3 as stated fails: after three rejected calls in a row \<^verbatim>\<open>retry\<close> makes a fourth, and
  when that one succeeds no error reaches the advancing operation.
\<close>

theorem three_failures_then_success:
  "isl (timerApiCall flakyApi (announcementPrompt ''Plank'' 60) 0)
   \<and> isl (timerApiCall flakyApi (announcementPrompt ''Plank'' 60) 1)
   \<and> isl (timerApiCall flakyApi (announcementPrompt ''Plank'' 60) 2)
   \<and> generateTimerAnnouncement flakyApi ''Plank'' 60 = Inr ''QUJD''"
proof -
  let ?fn = "timerApiCall flakyApi (announcementPrompt ''Plank'' 60)"
  have f: "\<And>k. k < 3 \<Longrightarrow> ?fn k = Inl (Error ''503'')"
    by (simp add: timerApiCall_def flakyApi_def withTimeout_def TIMEOUT_MS_def)
  have ok: "?fn (0 + 3) = Inr ''QUJD''"
    by (simp add: timerApiCall_def flakyApi_def withTimeout_def TIMEOUT_MS_def)
  have "fst (retry ?fn 0 3 1000) = Inr ''QUJD''"
    using ok by (rule retry_first_success [rotated]) (simp_all add: f)
  then show ?thesis
    by (simp add: f generateTimerAnnouncement_def generateTimerAnnouncement_run_def)
qed

text \<open>
  C3, amended. \<^verbatim>\<open>generateTimerAnnouncement\<close> rejects exactly when four calls in a row
  fail: the first and three retries, after sleeping 1000, 2000 and 4000 ms. When its
  rejection reaches a continuation of \<^verbatim>\<open>runSequence\<close> whose generation is the current one,
  the phase becomes Countdown.
\<close>

theorem four_failures_reach_countdown:
  assumes "index < length (timers props)"
    and "taskName = name (timers props ! index)"
    and "duration = durationSeconds (timers props ! index)"
    and "\<forall>k\<le>3. isl (timerApiCall ai (announcementPrompt taskName duration) k)"
    and "StepSynth index (opIdRef s) \<in> set (pending s)"
  shows "(isl (generateTimerAnnouncement ai' taskName duration)
            \<longleftrightarrow> (\<forall>k\<le>3. isl (timerApiCall ai' (announcementPrompt taskName duration) k)))
    \<and> generateTimerAnnouncement ai taskName duration
        = timerApiCall ai (announcementPrompt taskName duration) 3
    \<and> snd (generateTimerAnnouncement_run ai taskName duration) = [1000, 2000, 4000]
    \<and> (\<exists>s'. deliver props
               (SynthSettled (StepSynth index (opIdRef s))
                  (generateTimerAnnouncement ai taskName duration)) s = Some s'
            \<and> phase s' = COUNTDOWN)"
proof -
  let ?fn = "timerApiCall ai (announcementPrompt taskName duration)"
  have iff: "isl (generateTimerAnnouncement ai' taskName duration)
            \<longleftrightarrow> (\<forall>k\<le>3. isl (timerApiCall ai' (announcementPrompt taskName duration) k))"
    using retry_rejects_iff [of 3 "timerApiCall ai' (announcementPrompt taskName duration)" 0 1000]
    by (simp add: generateTimerAnnouncement_def generateTimerAnnouncement_run_def)
  have all: "fst (retry ?fn 0 3 1000) = ?fn (0 + 3)
      \<and> snd (retry ?fn 0 3 1000) = map (\<lambda>j. 1000 * 2 ^ j) [0..<3]"
    using assms(4) by (intro retry_all_fail) simp_all
  then have res: "generateTimerAnnouncement ai taskName duration = ?fn 3"
    and slept: "snd (generateTimerAnnouncement_run ai taskName duration) = [1000, 2000, 4000]"
    by (simp_all add: generateTimerAnnouncement_def generateTimerAnnouncement_run_def upt_rec)
  obtain e where e: "generateTimerAnnouncement ai taskName duration = Inl e"
    using res assms(4) by (cases "?fn 3") auto
  have "deliver props (SynthSettled (StepSynth index (opIdRef s)) (Inl e)) s
      = Some (runSequence_catch props index (opIdRef s) (resumed (StepSynth index (opIdRef s)) s))"
    using assms(5) by (simp add: deliver_synth_rejected)
  moreover have "phase (runSequence_catch props index (opIdRef s)
      (resumed (StepSynth index (opIdRef s)) s)) = COUNTDOWN"
    using catch_live [of "resumed (StepSynth index (opIdRef s)) s" "opIdRef s" props index]
    by simp
  ultimately show ?thesis using iff res slept e by simp
qed

theorem four_failures_reach_countdown_witness:
  "isl (generateTimerAnnouncement downApi ''Plank'' 1)
   \<and> snd (generateTimerAnnouncement_run downApi ''Plank'' 1) = [1000, 2000, 4000]
   \<and> (\<exists>s'. deliver sampleProps
               (SynthSettled (StepSynth 0 1) (generateTimerAnnouncement downApi ''Plank'' 1))
               (runSequence sampleProps 0 initialState) = Some s'
            \<and> phase s' = COUNTDOWN)"
proof -
  let ?s = "runSequence sampleProps 0 initialState"
  have p: "pending ?s = [StepSynth 0 1]" "opIdRef ?s = 1"
    by (simp_all add: runSequence_def stopEverything_def initialState_def sampleProps_def Let_def)
  have f: "\<forall>k\<le>3. isl (timerApiCall downApi (announcementPrompt ''Plank'' 1) k)"
    by (simp add: timerApiCall_def downApi_def withTimeout_def TIMEOUT_MS_def)
  have i: "0 < length (timers sampleProps)" by (simp add: sampleProps_def)
  have n: "''Plank'' = name (timers sampleProps ! 0)" by (simp add: sampleProps_def)
  have d: "1 = durationSeconds (timers sampleProps ! 0)" by (simp add: sampleProps_def)
  have q: "StepSynth 0 (opIdRef ?s) \<in> set (pending ?s)" by (simp only: p) simp
  note t = four_failures_reach_countdown [OF i n d f q, of downApi, unfolded p(2)]
  from t f show ?thesis by blast
qed


subsection \<open>Pause, resume and skip\<close>

lemma togglePause_resume:
  "(phase s = COUNTDOWN \<or> phase s = BUFFER) \<Longrightarrow> isPaused s \<Longrightarrow>
   \<not> isPaused (togglePause s) \<and> phase (togglePause s) = phase s
   \<and> currentIndex (togglePause s) = currentIndex s
   \<and> remainingSeconds (togglePause s) = remainingSeconds s
   \<and> intervalRef (togglePause s) = Some (nextHandle s)
   \<and> intervals (togglePause s) (nextHandle s)
       = Some \<lparr>tickOpId = opIdRef s, callback = ResumeCallback (phase s) (currentIndex s)\<rparr>"
  by (auto simp: togglePause_def startTimer_def clearCurrentInterval_def Let_def
      split: option.splits)

lemma togglePause_pause:
  "(phase s = COUNTDOWN \<or> phase s = BUFFER) \<Longrightarrow> \<not> isPaused s \<Longrightarrow>
   isPaused (togglePause s) \<and> phase (togglePause s) = phase s
   \<and> currentIndex (togglePause s) = currentIndex s
   \<and> remainingSeconds (togglePause s) = remainingSeconds s
   \<and> (\<forall>t. intervalRef s = Some t \<longrightarrow> intervals (togglePause s) t = None)"
  by (auto simp: togglePause_def clearCurrentInterval_def split: option.splits)

text \<open>
  C1 as stated fails: in the sample run the countdown of step 0 ticks under generation 1;
  after a pause and a resume the generation is still 1, and the interval that the resume
  registered carries generation 1, which is not greater than the one before the pause.
\<close>

theorem resume_keeps_generation:
  "run sampleProps toCountdown initialState \<noteq> None
   \<and> phase (the (run sampleProps toCountdown initialState)) = COUNTDOWN
   \<and> opIdRef (the (run sampleProps toCountdown initialState)) = 1
   \<and> run sampleProps (toCountdown @ [TogglePause]) initialState \<noteq> None
   \<and> isPaused (the (run sampleProps (toCountdown @ [TogglePause]) initialState))
   \<and> run sampleProps (toCountdown @ [TogglePause, TogglePause]) initialState \<noteq> None
   \<and> \<not> isPaused (the (run sampleProps (toCountdown @ [TogglePause, TogglePause]) initialState))
   \<and> opIdRef (the (run sampleProps (toCountdown @ [TogglePause, TogglePause]) initialState)) = 1
   \<and> intervalRef (the (run sampleProps (toCountdown @ [TogglePause, TogglePause]) initialState))
       = Some 3
   \<and> intervals (the (run sampleProps (toCountdown @ [TogglePause, TogglePause]) initialState)) 3
       = Some \<lparr>tickOpId = 1, callback = ResumeCallback COUNTDOWN 0\<rparr>
   \<and> \<not> opIdRef (the (run sampleProps toCountdown initialState))
        < tickOpId (the (intervals
            (the (run sampleProps (toCountdown @ [TogglePause, TogglePause]) initialState)) 3))"
  by (simp add: sample_defs deliver_def controller_defs Let_def)

text \<open>
  C1, amended. The generation grows by one in every call of \<^verbatim>\<open>runSequence\<close>, hence in
  every skip, and in \<^verbatim>\<open>cleanup\<close>; no event makes it smaller. Pause and resume leave it
  as it is: a resume in Countdown or Buffer keeps the phase and the remaining seconds and
  registers the new interval under the current generation, the one in force before the
  pause.
\<close>

theorem generation_counter:
  "opIdRef (runSequence props index s) = opIdRef s + 1
   \<and> opIdRef (handleSkip props s) = opIdRef s + 1
   \<and> opIdRef (cleanup s) = opIdRef s + 1
   \<and> (deliver props ev s = Some s' \<longrightarrow> opIdRef s \<le> opIdRef s')
   \<and> opIdRef (togglePause s) = opIdRef s
   \<and> ((phase s = COUNTDOWN \<or> phase s = BUFFER) \<and> \<not> isPaused s \<longrightarrow>
        isPaused (togglePause s)
        \<and> opIdRef (togglePause (togglePause s)) = opIdRef s
        \<and> phase (togglePause (togglePause s)) = phase s
        \<and> remainingSeconds (togglePause (togglePause s)) = remainingSeconds s
        \<and> \<not> isPaused (togglePause (togglePause s))
        \<and> (\<exists>t. intervalRef (togglePause (togglePause s)) = Some t
              \<and> intervals (togglePause (togglePause s)) t
                  = Some \<lparr>tickOpId = opIdRef s,
                          callback = ResumeCallback (phase s) (currentIndex s)\<rparr>))"
proof (intro conjI impI)
  show "deliver props ev s = Some s' \<Longrightarrow> opIdRef s \<le> opIdRef s'" by (rule opIdRef_deliver)
next
  assume a: "(phase s = COUNTDOWN \<or> phase s = BUFFER) \<and> \<not> isPaused s"
  then have p: "isPaused (togglePause s) \<and> phase (togglePause s) = phase s
      \<and> currentIndex (togglePause s) = currentIndex s
      \<and> remainingSeconds (togglePause s) = remainingSeconds s"
    using togglePause_pause [of s] by simp
  then have ph: "phase (togglePause s) = COUNTDOWN \<or> phase (togglePause s) = BUFFER"
    using a by simp
  note r = togglePause_resume [OF ph, of ] 
  show "isPaused (togglePause s)" using p by simp
  show "opIdRef (togglePause (togglePause s)) = opIdRef s" by simp
  show "phase (togglePause (togglePause s)) = phase s" using r p by simp
  show "remainingSeconds (togglePause (togglePause s)) = remainingSeconds s" using r p by simp
  show "\<not> isPaused (togglePause (togglePause s))" using r p by simp
  show "\<exists>t. intervalRef (togglePause (togglePause s)) = Some t
              \<and> intervals (togglePause (togglePause s)) t
                  = Some \<lparr>tickOpId = opIdRef s,
                          callback = ResumeCallback (phase s) (currentIndex s)\<rparr>"
    using r p by simp
qed simp_all

theorem generation_counter_witness:
  "opIdRef (handleSkip sampleProps initialState) = 1
   \<and> isPaused (togglePause (initialState\<lparr>phase := COUNTDOWN, opIdRef := 7\<rparr>))
   \<and> opIdRef (togglePause (togglePause (initialState\<lparr>phase := COUNTDOWN, opIdRef := 7\<rparr>))) = 7
   \<and> (\<exists>t. intervals (togglePause (togglePause (initialState\<lparr>phase := COUNTDOWN, opIdRef := 7\<rparr>))) t
           = Some \<lparr>tickOpId = 7, callback = ResumeCallback COUNTDOWN 0\<rparr>)"
proof -
  note t = generation_counter [of sampleProps 0 initialState Mount
      "runSequence sampleProps 0 initialState"]
  note u = generation_counter [of sampleProps 0 "initialState\<lparr>phase := COUNTDOWN, opIdRef := 7\<rparr>"
      Mount "runSequence sampleProps 0 (initialState\<lparr>phase := COUNTDOWN, opIdRef := 7\<rparr>)"]
  have a: "opIdRef initialState = 0" "phase (initialState\<lparr>phase := COUNTDOWN, opIdRef := 7\<rparr>) = COUNTDOWN"
    "\<not> isPaused (initialState\<lparr>phase := COUNTDOWN, opIdRef := 7\<rparr>)"
    "opIdRef (initialState\<lparr>phase := COUNTDOWN, opIdRef := 7\<rparr>) = 7"
    "currentIndex (initialState\<lparr>phase := COUNTDOWN, opIdRef := 7\<rparr>) = 0"
    by (simp_all add: initialState_def)
  have "opIdRef (handleSkip sampleProps initialState) = 1" using t a(1) by simp
  moreover have "isPaused (togglePause (initialState\<lparr>phase := COUNTDOWN, opIdRef := 7\<rparr>))"
    using u a(2,3) by blast
  moreover have "opIdRef (togglePause (togglePause (initialState\<lparr>phase := COUNTDOWN, opIdRef := 7\<rparr>))) = 7"
    using u a(2,3,4) by simp
  moreover have "\<exists>t. intervals (togglePause (togglePause (initialState\<lparr>phase := COUNTDOWN, opIdRef := 7\<rparr>))) t
           = Some \<lparr>tickOpId = 7, callback = ResumeCallback COUNTDOWN 0\<rparr>"
    using u a(2,3,4,5) by auto
  ultimately show ?thesis by blast
qed

text \<open>
  What a skip does in every phase, when the clip of the step after the displayed one is not
  cached: the playing clip and the interval are stopped, and the run advances to the index
  after \<open>currentIndex\<close>. In PreparingAudio, Announcing and Countdown \<open>currentIndex\<close> is the
  step in progress; in Buffer it already is the step to come.
\<close>

lemma handleSkip_advances:
  assumes "audioCache s (currentIndex s + 1) = None"
  shows "(\<forall>h. audioStopRef s = Some h \<longrightarrow> playing (handleSkip props s) h = None)
    \<and> (\<forall>t. intervalRef s = Some t \<longrightarrow> intervals (handleSkip props s) t = None)
    \<and> audioStopRef (handleSkip props s) = None
    \<and> intervalRef (handleSkip props s) = None
    \<and> (currentIndex s + 1 < length (timers props) \<longrightarrow>
          phase (handleSkip props s) = PREPARING_AUDIO
          \<and> currentIndex (handleSkip props s) = currentIndex s + 1)
    \<and> (currentIndex s + 1 \<ge> length (timers props) \<longrightarrow>
          phase (handleSkip props s) = COMPLETION_ANNOUNCEMENT)"
  using assms
  by (auto simp: handleSkip_def runSequence_def stopEverything_def Let_def split: option.splits)

text \<open>
  C2 fails on the code. In the sample run the alarm of step 0 has ended and the rest before
  step 1 is running, shown as Buffer with index 1. When the rest runs out, step 1 is
  prepared. When the user skips instead, \<^verbatim>\<open>handleSkip\<close> advances to
  \<^verbatim>\<open>currentIndex + 1\<close>, which is step 2: step 1 is passed over, and the only call made for
  it is the prefetch of its clip.
\<close>

theorem skip_in_buffer_passes_over_step:
  "observe sampleProps (toBuffer @ [Skip]) initialState =
     [(PREPARING_AUDIO, 0), (PREPARING_AUDIO, 0), (ANNOUNCING, 0), (ANNOUNCING, 0),
      (COUNTDOWN, 0), (COUNTDOWN, 0), (BUFFER, 1), (PREPARING_AUDIO, 2)]
   \<and> observe sampleProps (toBuffer @ [Tick 3]) initialState =
     [(PREPARING_AUDIO, 0), (PREPARING_AUDIO, 0), (ANNOUNCING, 0), (ANNOUNCING, 0),
      (COUNTDOWN, 0), (COUNTDOWN, 0), (BUFFER, 1), (PREPARING_AUDIO, 1)]
   \<and> pending (the (run sampleProps (toBuffer @ [Skip]) initialState))
       = [PreloadSynth 1, StepSynth 2 2]
   \<and> calls (the (run sampleProps (toBuffer @ [Skip]) initialState))
       = [SynthStep ''Plank'' 1, Decode ''QUJD'', PlayBuffer sampleClip (8 / 10),
          SynthStep ''Squats'' 90, PlayAlarm bell (8 / 10), SynthStep ''Stretch'' 45]"
  by (simp add: sample_defs deliver_def controller_defs Let_def)

end
